theory Spec2Isabelle
  imports Main "HOL-Library.Sublist"
begin

section \<open>Python strings\<close>

text \<open>
  A Python \<open>str\<close> is modelled as a \<open>string\<close> (a list of characters). The tokens, flags
  and file names the build script handles are ASCII.
\<close>

text \<open>\<open>s.startswith(p)\<close>.\<close>

fun startswith :: "string \<Rightarrow> string \<Rightarrow> bool" where
  "startswith s [] = True"
| "startswith [] (p # ps) = False"
| "startswith (c # cs) (p # ps) = (c = p \<and> startswith cs ps)"

text \<open>\<open>sub in s\<close>: \<open>sub\<close> occurs in \<open>s\<close> as a contiguous substring.\<close>

fun str_in :: "string \<Rightarrow> string \<Rightarrow> bool" where
  "str_in sub [] = (sub = [])"
| "str_in sub (c # cs) = (startswith (c # cs) sub \<or> str_in sub cs)"

text \<open>\<open>s.split(sep)\<close> for a one-character separator.\<close>

fun str_split :: "char \<Rightarrow> string \<Rightarrow> string list" where
  "str_split sep [] = [[]]"
| "str_split sep (c # cs) =
     (if c = sep then [] # str_split sep cs
      else (case str_split sep cs of
              [] \<Rightarrow> [[c]]
            | w # ws \<Rightarrow> (c # w) # ws))"

text \<open>\<open>sep.join(parts)\<close>.\<close>

fun str_join :: "string \<Rightarrow> string list \<Rightarrow> string" where
  "str_join sep [] = []"
| "str_join sep [p] = p"
| "str_join sep (p # q # ps) = p @ sep @ str_join sep (q # ps)"

text \<open>\<open>s.lstrip(c)\<close> for a one-character set.\<close>

definition str_lstrip :: "char \<Rightarrow> string \<Rightarrow> string" where
  "str_lstrip c s = dropWhile (\<lambda>x. x = c) s"

text \<open>\<open>s.find(c, start)\<close>, with \<open>None\<close> for Python's \<open>-1\<close>.\<close>

definition str_find :: "char \<Rightarrow> nat \<Rightarrow> string \<Rightarrow> nat option" where
  "str_find c start s =
     (if c \<in> set (drop start s)
      then Some (start + length (takeWhile (\<lambda>x. x \<noteq> c) (drop start s)))
      else None)"

text \<open>\<open>s.rfind(c)\<close>, with \<open>None\<close> for Python's \<open>-1\<close>.\<close>

definition str_rfind :: "char \<Rightarrow> string \<Rightarrow> nat option" where
  "str_rfind c s =
     (if c \<in> set s
      then Some (length s - 1 - length (takeWhile (\<lambda>x. x \<noteq> c) (rev s)))
      else None)"

text \<open>\<open>s.replace(a, b)\<close> for one-character \<open>a\<close> and \<open>b\<close>.\<close>

definition str_replace :: "char \<Rightarrow> char \<Rightarrow> string \<Rightarrow> string" where
  "str_replace a b s = map (\<lambda>c. if c = a then b else c) s"

text \<open>
  \<open>s.lower()\<close> on the code points below 256: the ASCII capitals and the Latin-1 capitals
  (\<open>0xC0\<close> to \<open>0xDE\<close>, the multiplication sign \<open>0xD7\<close> apart) move up by 32.
\<close>

definition lower_char :: "char \<Rightarrow> char" where
  "lower_char c =
     (let n = (of_char c :: nat)
      in if (65 \<le> n \<and> n \<le> 90) \<or> (192 \<le> n \<and> n \<le> 222 \<and> n \<noteq> 215)
         then char_of (n + 32) else c)"

definition str_lower :: "string \<Rightarrow> string" where
  "str_lower s = map lower_char s"

section \<open>pathlib\<close>

text \<open>
  \<open>Path(s)\<close> of the standard library, as CPython 3.11 parses it: a drive, a root and the
  list of parts, the first part being the anchor (drive and root) when there is one.
  The flavour is the Windows one where \<open>sys.platform\<close> is \<open>win32\<close> and the POSIX one
  elsewhere.
\<close>

record path =
  drv :: string
  root :: string
  parts :: "string list"

definition bslash :: char where
  "bslash = CHR 0x5C"

definition is_windows :: "string \<Rightarrow> bool" where
  "is_windows pf = (pf = ''win32'')"

definition flavour_sep :: "string \<Rightarrow> char" where
  "flavour_sep pf = (if is_windows pf then bslash else CHR ''/'')"

text \<open>\<open>_PosixFlavour.splitroot\<close>.\<close>

definition posix_splitroot :: "string \<Rightarrow> string \<times> string \<times> string" where
  "posix_splitroot part =
     (if take 1 part = ''/''
      then (let stripped_part = str_lstrip (CHR ''/'') part
            in if length part - length stripped_part = 2
               then ([], ''//'', stripped_part)
               else ([], ''/'', stripped_part))
      else ([], [], part))"

text \<open>\<open>_WindowsFlavour._split_extended_path\<close>.\<close>

definition split_extended_path :: "string \<Rightarrow> string \<times> string" where
  "split_extended_path s =
     (if startswith s [bslash, bslash, CHR ''?'', bslash]
      then (let pfx = take 4 s; s1 = drop 4 s
            in if startswith s1 [CHR ''U'', CHR ''N'', CHR ''C'', bslash]
               then (pfx @ take 3 s1, bslash # drop 3 s1)
               else (pfx, s1))
      else ([], s))"

definition drive_letters :: "char set" where
  "drive_letters = set ''abcdefghijklmnopqrstuvwxyzABCDEFGHIJKLMNOPQRSTUVWXYZ''"

text \<open>
  The tail of \<open>_WindowsFlavour.splitroot\<close>, after the UNC case: a drive letter with its
  colon, then a root.
\<close>

definition windows_drive_root :: "string \<Rightarrow> string \<Rightarrow> string \<times> string \<times> string" where
  "windows_drive_root pfx part =
     (let first = take 1 part; second = take 1 (drop 1 part); third = take 1 (drop 2 part);
          has_drv = (second = '':'' \<and> first \<noteq> [] \<and> hd first \<in> drive_letters);
          drv1 = (if has_drv then take 2 part else []);
          part1 = (if has_drv then drop 2 part else part);
          first1 = (if has_drv then third else first)
      in if first1 = [bslash]
         then (pfx @ drv1, first1, str_lstrip bslash part1)
         else (pfx @ drv1, [], part1))"

text \<open>\<open>_WindowsFlavour.splitroot\<close>.\<close>

definition windows_splitroot :: "string \<Rightarrow> string \<times> string \<times> string" where
  "windows_splitroot part0 =
     (let sep = [bslash];
          ext = (take 1 (drop 1 part0) = sep \<and> take 1 part0 = sep);
          pfx = (if ext then fst (split_extended_path part0) else []);
          part = (if ext then snd (split_extended_path part0) else part0);
          first = take 1 part; second = take 1 (drop 1 part); third = take 1 (drop 2 part)
      in if second = sep \<and> first = sep \<and> third \<noteq> sep
         then (case str_find bslash 2 part of
                 None \<Rightarrow> windows_drive_root pfx part
               | Some index \<Rightarrow>
                   (let found2 = str_find bslash (index + 1) part
                    in if found2 = Some (index + 1)
                       then windows_drive_root pfx part
                       else (let index2 = (case found2 of None \<Rightarrow> length part | Some i \<Rightarrow> i)
                             in if pfx \<noteq> []
                                then (pfx @ take (index2 - 1) (drop 1 part), sep,
                                      drop (index2 + 1) part)
                                else (take index2 part, sep, drop (index2 + 1) part))))
         else windows_drive_root pfx part)"

text \<open>
  \<open>_Flavour.parse_parts\<close> on the single argument of \<open>Path(s)\<close>: the empty string has no
  parts; otherwise the alternative separator is replaced, the root is split off, and the
  rest is split at the separator, the empty components and the \<open>.\<close> components dropped.
\<close>

definition Path :: "string \<Rightarrow> string \<Rightarrow> path" where
  "Path pf s =
     (if s = [] then \<lparr>drv = [], root = [], parts = []\<rparr>
      else (let sep = flavour_sep pf;
                part = (if is_windows pf then str_replace (CHR ''/'') bslash s else s);
                (d, r, rel) = (if is_windows pf then windows_splitroot part
                               else posix_splitroot part);
                parsed = filter (\<lambda>x. x \<noteq> [] \<and> x \<noteq> ''.'') (str_split sep rel)
            in \<lparr>drv = d, root = r,
                parts = (if d \<noteq> [] \<or> r \<noteq> [] then (d @ r) # parsed else parsed)\<rparr>))"

text \<open>\<open>str(p)\<close>: \<open>_format_parsed_parts\<close>, or \<open>.\<close> for the empty path.\<close>

definition path_str :: "string \<Rightarrow> path \<Rightarrow> string" where
  "path_str pf p =
     (let s = (if drv p \<noteq> [] \<or> root p \<noteq> []
               then drv p @ root p @ str_join [flavour_sep pf] (drop 1 (parts p))
               else str_join [flavour_sep pf] (parts p))
      in if s = [] then ''.'' else s)"

text \<open>\<open>p.name\<close>: the final component, if any.\<close>

definition path_name :: "path \<Rightarrow> string" where
  "path_name p =
     (if length (parts p) = (if drv p \<noteq> [] \<or> root p \<noteq> [] then 1 else 0)
      then [] else last (parts p))"

text \<open>\<open>p.stem\<close>: the final component without its last suffix.\<close>

definition path_stem :: "path \<Rightarrow> string" where
  "path_stem p =
     (let name = path_name p
      in case str_rfind (CHR ''.'') name of
           None \<Rightarrow> name
         | Some i \<Rightarrow> if 0 < i \<and> i < length name - 1 then take i name else name)"

section \<open>The filesystem, the host and the world\<close>

text \<open>
  The filesystem as the script observes it: what is found at a path. A regular file
  carries its text, or \<open>None\<close> when it cannot be read as UTF-8 text.
\<close>

datatype node = Directory | File "string option"

type_synonym filesystem = "path \<Rightarrow> node option"

datatype exn = FileNotFoundError | NotADirectoryError | OSError

text \<open>\<open>p.exists()\<close>, \<open>p.is_dir()\<close> and \<open>p.read_text(encoding='utf-8')\<close> (\<open>None\<close>: it raises).\<close>

definition path_exists :: "filesystem \<Rightarrow> path \<Rightarrow> bool" where
  "path_exists fs p = (fs p \<noteq> None)"

definition is_dir :: "filesystem \<Rightarrow> path \<Rightarrow> bool" where
  "is_dir fs p = (fs p = Some Directory)"

definition read_text :: "filesystem \<Rightarrow> path \<Rightarrow> string option" where
  "read_text fs p = (case fs p of Some (File (Some content)) \<Rightarrow> Some content | _ \<Rightarrow> None)"

text \<open>\<open>q\<close> is \<open>d\<close> or lies below it.\<close>

definition is_under :: "path \<Rightarrow> path \<Rightarrow> bool" where
  "is_under d q =
     (drv q = drv d \<and> root q = root d \<and> take (length (parts d)) (parts q) = parts d)"

text \<open>
  \<open>shutil.rmtree(d)\<close>: a directory goes with everything below it; on a missing path and
  on a path that is not a directory it raises and removes nothing.
\<close>

definition rmtree :: "path \<Rightarrow> filesystem \<Rightarrow> exn + filesystem" where
  "rmtree d fs =
     (case fs d of
        None \<Rightarrow> Inl FileNotFoundError
      | Some Directory \<Rightarrow> Inr (\<lambda>q. if is_under d q then None else fs q)
      | Some (File content) \<Rightarrow> Inl NotADirectoryError)"

text \<open>
  What \<open>subprocess.run(cmd, check=True)\<close> meets: the child ran and exited with a return
  code, or the call raised (\<open>FileNotFoundError\<close> when the executable is not found).
\<close>

datatype run_outcome = Exited int | Raised exn

text \<open>
  The host: \<open>sys.platform\<close>, \<open>sys.executable\<close>, \<open>Path.cwd()\<close>, and the behaviour of the
  child process, which is opaque to the script: its outcome and the filesystem it leaves.
\<close>

record host =
  platform :: string
  executable :: string
  cwd :: path
  subprocess_run :: "string list \<Rightarrow> filesystem \<Rightarrow> run_outcome \<times> filesystem"

text \<open>The lines the script prints, one constructor for each \<open>print\<close> of the source.\<close>

datatype message =
    MainFileNotFound string
  | CleaningArtifacts
  | Building string
  | FrameworkLine string
  | OutputLine string
  | CommandLine "string list"
  | BuildSuccessful string
  | BuildFailed int
  | NuitkaNotFound

text \<open>
  The state the script acts on: the filesystem, the lines printed so far, and the
  commands handed to \<open>subprocess.run\<close> so far.
\<close>

record world =
  fs :: filesystem
  stdout :: "message list"
  calls :: "string list list"

definition print :: "message \<Rightarrow> world \<Rightarrow> world" where
  "print m w = w\<lparr>stdout := stdout w @ [m]\<rparr>"

text \<open>
  How a run ends: \<open>run_build\<close> returns (the interpreter then exits with 0), it calls
  \<open>sys.exit(n)\<close>, or an exception is not caught (the interpreter then exits with 1).
\<close>

datatype status = Returned | SysExit int | Uncaught exn

definition exit_code :: "status \<Rightarrow> int" where
  "exit_code st = (case st of Returned \<Rightarrow> 0 | SysExit n \<Rightarrow> n | Uncaught e \<Rightarrow> 1)"

section \<open>NuitkaBuildConfig\<close>

text \<open>The parsed command line: \<open>args.name\<close>, \<open>args.main\<close> and so on.\<close>

record args =
  arg_name :: "string option"
  arg_main :: string
  arg_icon :: "string option"
  arg_console :: bool
  arg_onefile :: bool
  arg_clean :: bool
  arg_framework :: "string option"

record config =
  main_file :: path
  app_name :: string
  icon :: "string option"
  console :: bool
  onefile :: bool
  clean :: bool
  framework :: string
  output_dir :: path
  build_dir :: path

definition FRAMEWORK_PLUGINS :: "(string \<times> string list) list" where
  "FRAMEWORK_PLUGINS =
     [(''pyside6'', [''pyside6'']),
      (''pyqt6'', [''pyqt6'']),
      (''pyqt5'', [''pyqt5'']),
      (''qt'', [''pyside6'']),
      (''ctk'', [''tk-inter'']),
      (''tkinter'', [''tk-inter'']),
      (''flet'', [])]"

text \<open>\<open>_detect_app_name\<close>.\<close>

definition detect_app_name :: "host \<Rightarrow> path \<Rightarrow> string" where
  "detect_app_name h mf =
     (if path_stem mf \<noteq> ''main'' then path_stem mf else path_name (cwd h))"

text \<open>
  \<open>_detect_framework\<close>: every exception of the \<open>try\<close> block, which only \<open>read_text\<close> can
  raise, leads to the default.
\<close>

definition detect_framework :: "filesystem \<Rightarrow> path \<Rightarrow> string" where
  "detect_framework fsys mf =
     (case read_text fsys mf of
        None \<Rightarrow> ''pyside6''
      | Some content \<Rightarrow>
          if str_in ''PySide6'' content \<or> str_in ''pyside6'' content then ''pyside6''
          else if str_in ''PyQt6'' content then ''pyqt6''
          else if str_in ''PyQt5'' content then ''pyqt5''
          else if str_in ''customtkinter'' content \<or> str_in ''ctk'' content then ''ctk''
          else if str_in ''flet'' content then ''flet''
          else if str_in ''tkinter'' content then ''tkinter''
          else ''pyside6'')"

text \<open>
  \<open>__init__\<close>. Python's \<open>args.name or ...\<close> and \<open>... if args.framework else ...\<close> test
  truthiness: \<open>None\<close> and the empty string both count as absent.
\<close>

definition NuitkaBuildConfig :: "host \<Rightarrow> filesystem \<Rightarrow> args \<Rightarrow> config" where
  "NuitkaBuildConfig h fsys a =
     (let mf = Path (platform h) (arg_main a)
      in \<lparr>main_file = mf,
          app_name = (case arg_name a of
                        None \<Rightarrow> detect_app_name h mf
                      | Some n \<Rightarrow> if n \<noteq> [] then n else detect_app_name h mf),
          icon = arg_icon a,
          console = arg_console a,
          onefile = arg_onefile a,
          clean = arg_clean a,
          framework = (case arg_framework a of
                         None \<Rightarrow> detect_framework fsys mf
                       | Some f \<Rightarrow> if f \<noteq> [] then str_lower f else detect_framework fsys mf),
          output_dir = Path (platform h) ''dist'',
          build_dir = Path (platform h) ''build''\<rparr>)"

text \<open>\<open>get_plugins\<close>: \<open>FRAMEWORK_PLUGINS.get(self.framework, [])\<close>.\<close>

definition get_plugins :: "config \<Rightarrow> string list" where
  "get_plugins c =
     (case map_of FRAMEWORK_PLUGINS (framework c) of None \<Rightarrow> [] | Some ps \<Rightarrow> ps)"

definition common_dirs :: "string list" where
  "common_dirs =
     [''assets'', ''resources'', ''static'', ''images'', ''icons'', ''fonts'', ''themes'']"

text \<open>\<open>get_data_dirs\<close>: the loop appends to \<open>found\<close>.\<close>

definition get_data_dirs :: "string \<Rightarrow> filesystem \<Rightarrow> string list" where
  "get_data_dirs pf fsys =
     fold (\<lambda>d found. if is_dir fsys (Path pf d) then found @ [d] else found) common_dirs []"

section \<open>run_build\<close>

text \<open>The clean loop over \<open>[config.output_dir, config.build_dir]\<close>; an exception ends it.\<close>

fun clean_loop :: "path list \<Rightarrow> world \<Rightarrow> world \<times> exn option" where
  "clean_loop [] w = (w, None)"
| "clean_loop (d # ds) w =
     (if path_exists (fs w) d
      then (case rmtree d (fs w) of
              Inl e \<Rightarrow> (w, Some e)
            | Inr fs' \<Rightarrow> clean_loop ds (w\<lparr>fs := fs'\<rparr>))
      else clean_loop ds w)"

text \<open>The clean step: lines 100 to 104.\<close>

definition clean_step :: "config \<Rightarrow> world \<Rightarrow> world \<times> exn option" where
  "clean_step c w =
     (if clean c
      then clean_loop [output_dir c, build_dir c] (print CleaningArtifacts w)
      else (w, None))"

text \<open>The command: lines 107 to 161, each statement in the order of the source.\<close>

definition build_cmd :: "host \<Rightarrow> config \<Rightarrow> filesystem \<Rightarrow> string list" where
  "build_cmd h c fsys =
     (let cmd = [executable h, ''-m'', ''nuitka'', ''--standalone'',
                 ''--output-dir='' @ path_str (platform h) (output_dir c)];
          cmd = (if onefile c then cmd @ [''--onefile''] else cmd);
          cmd = (if platform h = ''win32'' \<and> \<not> console c
                 then cmd @ [''--windows-disable-console'']
                 else if platform h = ''darwin'' \<and> \<not> console c
                 then cmd @ [''--macos-disable-console'']
                 else cmd);
          cmd = fold (\<lambda>plugin acc. acc @ [''--enable-plugin='' @ plugin]) (get_plugins c) cmd;
          cmd = fold (\<lambda>data_dir acc. acc @ [''--include-data-dir='' @ data_dir @ ''='' @ data_dir])
                  (get_data_dirs (platform h) fsys) cmd;
          cmd = (case icon c of
                   None \<Rightarrow> cmd
                 | Some ico \<Rightarrow>
                     if ico = [] then cmd
                     else if platform h = ''win32''
                     then cmd @ [''--windows-icon-from-ico='' @ ico]
                     else if platform h = ''darwin''
                     then cmd @ [''--macos-app-icon='' @ ico]
                     else cmd);
          cmd = (if platform h = ''win32''
                 then cmd @ [''--product-name='' @ app_name c,
                             ''--file-description='' @ app_name c,
                             ''--file-version=1.0.0.0'',
                             ''--product-version=1.0.0.0'']
                 else cmd);
          cmd = (if platform h = ''darwin''
                 then cmd @ [''--macos-create-app-bundle'',
                             ''--macos-app-name='' @ app_name c]
                 else cmd);
          cmd = cmd @ [''--assume-yes-for-downloads'', ''--remove-output''];
          cmd = cmd @ [path_str (platform h) (main_file c)]
      in cmd)"

text \<open>
  The \<open>try\<close> block: lines 170 to 178. With \<open>check=True\<close> a return code other than 0
  raises \<open>CalledProcessError\<close>, which is caught, as \<open>FileNotFoundError\<close> is; any other
  exception is not.
\<close>

definition execute :: "host \<Rightarrow> config \<Rightarrow> string list \<Rightarrow> world \<Rightarrow> world \<times> status" where
  "execute h c cmd w =
     (let (outcome, fs') = subprocess_run h cmd (fs w);
          w1 = w\<lparr>fs := fs', calls := calls w @ [cmd]\<rparr>
      in case outcome of
           Exited rc \<Rightarrow>
             if rc = 0
             then (print (BuildSuccessful (path_str (platform h) (output_dir c))) w1, Returned)
             else (print (BuildFailed rc) w1, SysExit rc)
         | Raised e \<Rightarrow>
             if e = FileNotFoundError
             then (print NuitkaNotFound w1, SysExit 1)
             else (w1, Uncaught e))"

text \<open>The four lines printed before the command runs: lines 164 to 167.\<close>

definition print_command :: "host \<Rightarrow> config \<Rightarrow> string list \<Rightarrow> world \<Rightarrow> world" where
  "print_command h c cmd w =
     print (CommandLine cmd)
       (print (OutputLine (path_str (platform h) (output_dir c)))
         (print (FrameworkLine (framework c))
           (print (Building (app_name c)) w)))"

definition run_build :: "host \<Rightarrow> config \<Rightarrow> world \<Rightarrow> world \<times> status" where
  "run_build h c w =
     (if \<not> path_exists (fs w) (main_file c)
      then (print (MainFileNotFound (path_str (platform h) (main_file c))) w, SysExit 1)
      else (let (w1, err) = clean_step c w
            in case err of
                 Some e \<Rightarrow> (w1, Uncaught e)
               | None \<Rightarrow>
                   (let cmd = build_cmd h c (fs w1)
                    in execute h c cmd (print_command h c cmd w1))))"

text \<open>\<open>main\<close>, from the parsed arguments on.\<close>

definition main :: "host \<Rightarrow> args \<Rightarrow> world \<Rightarrow> world \<times> status" where
  "main h a w = run_build h (NuitkaBuildConfig h (fs w) a) w"

section \<open>The detection order in the words of the specification\<close>

text \<open>
  The specification describes framework detection as a search in a fixed priority order
  where the first match wins. That reading is written down here on its own, as a table
  of tokens and a first-match search, to be compared with \<open>detect_framework\<close>.
\<close>

definition spec_priority :: "(string list \<times> string) list" where
  "spec_priority =
     [([''PySide6'', ''pyside6''], ''pyside6''),
      ([''PyQt6''], ''pyqt6''),
      ([''PyQt5''], ''pyqt5''),
      ([''customtkinter'', ''ctk''], ''ctk''),
      ([''flet''], ''flet''),
      ([''tkinter''], ''tkinter'')]"

definition spec_default_framework :: string where
  "spec_default_framework = ''pyside6''"

fun spec_first_match :: "(string list \<times> string) list \<Rightarrow> string \<Rightarrow> string option" where
  "spec_first_match [] content = None"
| "spec_first_match ((tokens, fw) # rest) content =
     (if list_ex (\<lambda>t. str_in t content) tokens then Some fw
      else spec_first_match rest content)"

definition spec_detect_framework :: "string option \<Rightarrow> string" where
  "spec_detect_framework text =
     (case text of
        None \<Rightarrow> spec_default_framework
      | Some content \<Rightarrow>
          (case spec_first_match spec_priority content of
             None \<Rightarrow> spec_default_framework
           | Some fw \<Rightarrow> fw))"

section \<open>The parts of a command\<close>

text \<open>
  A command is the interpreter invocation \<open>sys.executable -m nuitka\<close>, the flags the
  script assembles, and the entry-point path as the last argument. \<open>assembled_flags\<close>
  is the middle part.
\<close>

definition assembled_flags :: "string list \<Rightarrow> string list" where
  "assembled_flags cmd = butlast (drop 3 cmd)"

section \<open>Example hosts and worlds\<close>

text \<open>
  A host of the given platform whose child process ends in the given way and leaves the
  filesystem as it is.
\<close>

definition example_host :: "string \<Rightarrow> run_outcome \<Rightarrow> host" where
  "example_host pf outcome =
     \<lparr>platform = pf, executable = ''python'', cwd = Path pf ''/home/dev/project'',
      subprocess_run = (\<lambda>cmd fsys. (outcome, fsys))\<rparr>"

text \<open>
  A project directory: the entry file with the given text, the data directories
  \<open>assets\<close> and \<open>fonts\<close>, and whatever the last two arguments put at \<open>dist\<close> and \<open>build\<close>.
\<close>

definition example_fs ::
  "string \<Rightarrow> string \<Rightarrow> string \<Rightarrow> node option \<Rightarrow> node option \<Rightarrow> filesystem" where
  "example_fs pf entry content dist_node build_node =
     (\<lambda>p. if p = Path pf entry then Some (File (Some content))
          else if p = Path pf ''assets'' \<or> p = Path pf ''fonts'' then Some Directory
          else if p = Path pf ''dist'' then dist_node
          else if p = Path pf ''build'' then build_node
          else None)"

definition example_world :: "filesystem \<Rightarrow> world" where
  "example_world fsys = \<lparr>fs = fsys, stdout = [], calls = []\<rparr>"

text \<open>The command line \<open>--main ENTRY\<close> with no other flag.\<close>

definition example_args :: "string \<Rightarrow> args" where
  "example_args entry =
     \<lparr>arg_name = None, arg_main = entry, arg_icon = None, arg_console = False,
      arg_onefile = False, arg_clean = False, arg_framework = None\<rparr>"

section \<open>Facts about the string functions\<close>

lemma startswith_iff: "startswith s p \<longleftrightarrow> (\<exists>r. s = p @ r)"
  by (induction s p rule: startswith.induct) auto

lemma str_in_iff: "str_in sub s \<longleftrightarrow> (\<exists>pre post. s = pre @ sub @ post)"
proof (induction s)
  case Nil
  then show ?case by auto
next
  case (Cons c cs)
  show ?case
  proof
    assume "str_in sub (c # cs)"
    then consider "startswith (c # cs) sub" | "str_in sub cs" by auto
    then show "\<exists>pre post. c # cs = pre @ sub @ post"
    proof cases
      case 1
      then obtain r where "c # cs = sub @ r" by (auto simp: startswith_iff)
      then have "c # cs = [] @ sub @ r" by simp
      then show ?thesis by blast
    next
      case 2
      then obtain pre post where "cs = pre @ sub @ post" using Cons.IH by blast
      then have "c # cs = (c # pre) @ sub @ post" by simp
      then show ?thesis by blast
    qed
  next
    assume "\<exists>pre post. c # cs = pre @ sub @ post"
    then obtain pre post where e: "c # cs = pre @ sub @ post" by blast
    show "str_in sub (c # cs)"
    proof (cases pre)
      case Nil
      with e have "startswith (c # cs) sub" by (auto simp: startswith_iff)
      then show ?thesis by simp
    next
      case (Cons a pre')
      with e have "cs = pre' @ sub @ post" by simp
      then have "str_in sub cs" using Cons.IH by blast
      then show ?thesis by simp
    qed
  qed
qed

lemma str_in_sublist: "str_in sub s \<longleftrightarrow> sublist sub s"
  by (simp add: str_in_iff sublist_def)

lemma str_in_trans: "str_in a b \<Longrightarrow> str_in b c \<Longrightarrow> str_in a c"
  unfolding str_in_sublist by (rule sublist_order.order_trans)

lemma fold_append_map: "fold (\<lambda>x acc. acc @ [f x]) xs acc = acc @ map f xs"
  by (induction xs arbitrary: acc) auto

lemma fold_append_filter:
  "fold (\<lambda>x acc. if P x then acc @ [x] else acc) xs acc = acc @ filter P xs"
  by (induction xs arbitrary: acc) auto

section \<open>Paths of plain file names\<close>

lemma str_split_no_sep: "sep \<notin> set s \<Longrightarrow> str_split sep s = [s]"
  by (induction s) auto

lemma take1_neq: "s \<noteq> [] \<Longrightarrow> c \<notin> set s \<Longrightarrow> take (Suc 0) s \<noteq> [c]"
  by (cases s) auto

lemma windows_drive_root_plain:
  assumes "s \<noteq> []" "bslash \<notin> set s" "take 1 (drop 1 s) \<noteq> '':''"
  shows "windows_drive_root [] s = ([], [], s)"
  using assms by (simp add: windows_drive_root_def Let_def take1_neq)

lemma windows_splitroot_plain:
  assumes "s \<noteq> []" "bslash \<notin> set s" "take 1 (drop 1 s) \<noteq> '':''"
  shows "windows_splitroot s = ([], [], s)"
  using assms by (simp add: windows_splitroot_def Let_def take1_neq windows_drive_root_plain)

lemma posix_splitroot_plain:
  assumes "s \<noteq> []" "CHR ''/'' \<notin> set s"
  shows "posix_splitroot s = ([], [], s)"
  using assms by (simp add: posix_splitroot_def take1_neq)

lemma str_replace_absent: "a \<notin> set s \<Longrightarrow> str_replace a b s = s"
  by (induction s) (auto simp: str_replace_def)

lemma Path_plain:
  assumes "s \<noteq> []" "CHR ''/'' \<notin> set s" "bslash \<notin> set s" "s \<noteq> ''.''"
    and "take 1 (drop 1 s) \<noteq> '':''"
  shows "Path pf s = \<lparr>drv = [], root = [], parts = [s]\<rparr>"
proof (cases "is_windows pf")
  case True
  then show ?thesis using assms
    by (simp add: Path_def Let_def str_replace_absent windows_splitroot_plain
        flavour_sep_def str_split_no_sep)
next
  case False
  then show ?thesis using assms
    by (simp add: Path_def Let_def posix_splitroot_plain flavour_sep_def str_split_no_sep)
qed

lemma Path_common_dirs:
  "d \<in> set common_dirs \<Longrightarrow> Path pf d = \<lparr>drv = [], root = [], parts = [d]\<rparr>"
  by (rule Path_plain) (auto simp: common_dirs_def bslash_def)

lemma Path_names:
  "Path pf ''app.py'' = \<lparr>drv = [], root = [], parts = [''app.py'']\<rparr>"
  "Path pf ''dist'' = \<lparr>drv = [], root = [], parts = [''dist'']\<rparr>"
  "Path pf ''build'' = \<lparr>drv = [], root = [], parts = [''build'']\<rparr>"
  "Path pf ''assets'' = \<lparr>drv = [], root = [], parts = [''assets'']\<rparr>"
  "Path pf ''resources'' = \<lparr>drv = [], root = [], parts = [''resources'']\<rparr>"
  "Path pf ''static'' = \<lparr>drv = [], root = [], parts = [''static'']\<rparr>"
  "Path pf ''images'' = \<lparr>drv = [], root = [], parts = [''images'']\<rparr>"
  "Path pf ''icons'' = \<lparr>drv = [], root = [], parts = [''icons'']\<rparr>"
  "Path pf ''fonts'' = \<lparr>drv = [], root = [], parts = [''fonts'']\<rparr>"
  "Path pf ''themes'' = \<lparr>drv = [], root = [], parts = [''themes'']\<rparr>"
  by (rule Path_plain; simp add: bslash_def)+

lemma Path_missing: "Path pf ''missing.py'' = \<lparr>drv = [], root = [], parts = [''missing.py'']\<rparr>"
  by (rule Path_plain; simp add: bslash_def)

lemma Path_flag_name:
  "Path pf ''--macos-disable-console''
     = \<lparr>drv = [], root = [], parts = [''--macos-disable-console'']\<rparr>"
  by (rule Path_plain; simp add: bslash_def)

lemma path_str_plain: "s \<noteq> [] \<Longrightarrow> path_str pf \<lparr>drv = [], root = [], parts = [s]\<rparr> = s"
  by (simp add: path_str_def)

lemma path_str_names:
  "path_str pf \<lparr>drv = [], root = [], parts = [''dist'']\<rparr> = ''dist''"
  "path_str pf \<lparr>drv = [], root = [], parts = [''app.py'']\<rparr> = ''app.py''"
  by (simp_all add: path_str_plain)

lemma path_stem_with_suffix:
  assumes "base \<noteq> []" "ext \<noteq> []" "CHR ''.'' \<notin> set ext"
  shows "path_stem \<lparr>drv = [], root = [], parts = [base @ ''.'' @ ext]\<rparr> = base"
proof -
  let ?n = "base @ ''.'' @ ext"
  have tw: "takeWhile (\<lambda>x. x \<noteq> CHR ''.'') (rev ?n) = rev ext"
    using assms(3) by (simp add: takeWhile_append)
  have "str_rfind (CHR ''.'') ?n = Some (length base)"
    unfolding str_rfind_def using tw by simp
  moreover have "path_name \<lparr>drv = [], root = [], parts = [?n]\<rparr> = ?n"
    by (simp add: path_name_def)
  ultimately show ?thesis using assms by (simp add: path_stem_def)
qed

lemma stem_examples:
  "path_stem (Path pf ''app.py'') = ''app''" "path_stem (Path pf ''main.py'') = ''main''"
proof -
  have "Path pf ''main.py'' = \<lparr>drv = [], root = [], parts = [''main.py'']\<rparr>"
    by (rule Path_plain; simp add: bslash_def)
  then show "path_stem (Path pf ''main.py'') = ''main''"
    using path_stem_with_suffix [of "''main''" "''py''"] by simp
  show "path_stem (Path pf ''app.py'') = ''app''"
    using path_stem_with_suffix [of "''app''" "''py''"] by (simp add: Path_names)
qed

lemma cwd_name_example: "path_name (Path ''linux'' ''/home/dev/project'') = ''project''"
  by code_simp

section \<open>Facts about the configuration\<close>

lemma config_simps:
  "main_file (NuitkaBuildConfig h fsys a) = Path (platform h) (arg_main a)"
  "clean (NuitkaBuildConfig h fsys a) = arg_clean a"
  "console (NuitkaBuildConfig h fsys a) = arg_console a"
  "onefile (NuitkaBuildConfig h fsys a) = arg_onefile a"
  "icon (NuitkaBuildConfig h fsys a) = arg_icon a"
  "output_dir (NuitkaBuildConfig h fsys a) = \<lparr>drv = [], root = [], parts = [''dist'']\<rparr>"
  "build_dir (NuitkaBuildConfig h fsys a) = \<lparr>drv = [], root = [], parts = [''build'']\<rparr>"
  by (simp_all add: NuitkaBuildConfig_def Let_def Path_names)

lemma get_data_dirs_filter:
  "get_data_dirs pf fsys = filter (\<lambda>d. is_dir fsys (Path pf d)) common_dirs"
  by (simp add: get_data_dirs_def fold_append_filter)

lemma detect_refines:
  "detect_framework fsys mf = spec_detect_framework (read_text fsys mf)"
  by (simp add: detect_framework_def spec_detect_framework_def spec_priority_def
      spec_default_framework_def split: option.split)

lemma tkinter_in_import: "str_in ''tkinter'' ''import tkinter''"
  by code_simp

lemma detect_tkinter:
  assumes "read_text fsys mf = Some content" and "str_in ''import tkinter'' content"
    and "\<forall>t \<in> set [''PySide6'', ''pyside6'', ''PyQt6'', ''PyQt5'', ''customtkinter'', ''ctk'',
                    ''flet'']. \<not> str_in t content"
  shows "detect_framework fsys mf = ''tkinter''"
proof -
  have "str_in ''tkinter'' content"
    using tkinter_in_import assms(2) by (rule str_in_trans)
  then show ?thesis using assms(1,3) by (simp add: detect_framework_def)
qed

lemma get_plugins_tkinter: "framework c = ''tkinter'' \<Longrightarrow> get_plugins c = [''tk-inter'']"
  by (simp add: get_plugins_def FRAMEWORK_PLUGINS_def)

section \<open>Facts about the command\<close>

lemma build_cmd_eq:
  "build_cmd h c fsys =
     [executable h, ''-m'', ''nuitka'']
     @ [''--standalone'', ''--output-dir='' @ path_str (platform h) (output_dir c)]
     @ (if onefile c then [''--onefile''] else [])
     @ (if console c then []
        else if platform h = ''win32'' then [''--windows-disable-console'']
        else if platform h = ''darwin'' then [''--macos-disable-console'']
        else [])
     @ map (\<lambda>plugin. ''--enable-plugin='' @ plugin) (get_plugins c)
     @ map (\<lambda>d. ''--include-data-dir='' @ d @ ''='' @ d) (get_data_dirs (platform h) fsys)
     @ (case icon c of
          None \<Rightarrow> []
        | Some ico \<Rightarrow>
            if ico = [] then []
            else if platform h = ''win32'' then [''--windows-icon-from-ico='' @ ico]
            else if platform h = ''darwin'' then [''--macos-app-icon='' @ ico]
            else [])
     @ (if platform h = ''win32''
        then [''--product-name='' @ app_name c, ''--file-description='' @ app_name c,
              ''--file-version=1.0.0.0'', ''--product-version=1.0.0.0'']
        else [])
     @ (if platform h = ''darwin''
        then [''--macos-create-app-bundle'', ''--macos-app-name='' @ app_name c]
        else [])
     @ [''--assume-yes-for-downloads'', ''--remove-output'']
     @ [path_str (platform h) (main_file c)]"
  unfolding build_cmd_def Let_def fold_append_map
  by (simp split: option.split)

lemma build_cmd_parts:
  "build_cmd h c fsys =
     [executable h, ''-m'', ''nuitka'']
     @ ([''--standalone'', ''--output-dir='' @ path_str (platform h) (output_dir c)]
        @ (if onefile c then [''--onefile''] else [])
        @ (if console c then []
           else if platform h = ''win32'' then [''--windows-disable-console'']
           else if platform h = ''darwin'' then [''--macos-disable-console'']
           else [])
        @ map (\<lambda>plugin. ''--enable-plugin='' @ plugin) (get_plugins c)
        @ map (\<lambda>d. ''--include-data-dir='' @ d @ ''='' @ d) (get_data_dirs (platform h) fsys)
        @ (case icon c of
             None \<Rightarrow> []
           | Some ico \<Rightarrow>
               if ico = [] then []
               else if platform h = ''win32'' then [''--windows-icon-from-ico='' @ ico]
               else if platform h = ''darwin'' then [''--macos-app-icon='' @ ico]
               else [])
        @ (if platform h = ''win32''
           then [''--product-name='' @ app_name c, ''--file-description='' @ app_name c,
                 ''--file-version=1.0.0.0'', ''--product-version=1.0.0.0'']
           else [])
        @ (if platform h = ''darwin''
           then [''--macos-create-app-bundle'', ''--macos-app-name='' @ app_name c]
           else [])
        @ [''--assume-yes-for-downloads'', ''--remove-output''])
     @ [path_str (platform h) (main_file c)]"
  unfolding build_cmd_eq by (simp only: append_assoc)

lemma assembled_flags_parts: "assembled_flags ([a, b, c] @ mid @ [x]) = mid"
  by (simp add: assembled_flags_def)

lemma assembled_flags_build_cmd:
  "assembled_flags (build_cmd h c fsys) =
       [''--standalone'', ''--output-dir='' @ path_str (platform h) (output_dir c)]
        @ (if onefile c then [''--onefile''] else [])
        @ (if console c then []
           else if platform h = ''win32'' then [''--windows-disable-console'']
           else if platform h = ''darwin'' then [''--macos-disable-console'']
           else [])
        @ map (\<lambda>plugin. ''--enable-plugin='' @ plugin) (get_plugins c)
        @ map (\<lambda>d. ''--include-data-dir='' @ d @ ''='' @ d) (get_data_dirs (platform h) fsys)
        @ (case icon c of
             None \<Rightarrow> []
           | Some ico \<Rightarrow>
               if ico = [] then []
               else if platform h = ''win32'' then [''--windows-icon-from-ico='' @ ico]
               else if platform h = ''darwin'' then [''--macos-app-icon='' @ ico]
               else [])
        @ (if platform h = ''win32''
           then [''--product-name='' @ app_name c, ''--file-description='' @ app_name c,
                 ''--file-version=1.0.0.0'', ''--product-version=1.0.0.0'']
           else [])
        @ (if platform h = ''darwin''
           then [''--macos-create-app-bundle'', ''--macos-app-name='' @ app_name c]
           else [])
        @ [''--assume-yes-for-downloads'', ''--remove-output'']"
  by (subst build_cmd_parts) (rule assembled_flags_parts)

lemma windows_flag_member:
  "''--windows-disable-console'' \<in> set (assembled_flags (build_cmd h c fsys))
     \<longleftrightarrow> platform h = ''win32'' \<and> \<not> console c"
  unfolding assembled_flags_build_cmd by (auto split: option.split)

lemma macos_flag_member:
  "''--macos-disable-console'' \<in> set (assembled_flags (build_cmd h c fsys))
     \<longleftrightarrow> platform h = ''darwin'' \<and> \<not> console c"
  unfolding assembled_flags_build_cmd by (auto split: option.split)

lemma build_cmd_split:
  "build_cmd h c fsys =
     [executable h, ''-m'', ''nuitka''] @ assembled_flags (build_cmd h c fsys)
     @ [path_str (platform h) (main_file c)]"
  unfolding assembled_flags_build_cmd by (rule build_cmd_parts)

section \<open>Facts about the run\<close>

lemma print_simps:
  "fs (print m w) = fs w" "calls (print m w) = calls w" "stdout (print m w) = stdout w @ [m]"
  by (simp_all add: print_def)

lemma print_command_simps:
  "fs (print_command h c cmd w) = fs w" "calls (print_command h c cmd w) = calls w"
  "stdout (print_command h c cmd w) =
     stdout w @ [Building (app_name c), FrameworkLine (framework c),
                 OutputLine (path_str (platform h) (output_dir c)), CommandLine cmd]"
  by (simp_all add: print_command_def print_simps)

lemma run_build_missing:
  "\<not> path_exists (fs w) (main_file c) \<Longrightarrow>
   run_build h c w = (print (MainFileNotFound (path_str (platform h) (main_file c))) w, SysExit 1)"
  by (simp add: run_build_def)


lemma run_build_reaches:
  "path_exists (fs w) (main_file c) \<Longrightarrow> clean_step c w = (w1, None) \<Longrightarrow>
   run_build h c w =
     execute h c (build_cmd h c (fs w1)) (print_command h c (build_cmd h c (fs w1)) w1)"
  by (simp add: run_build_def Let_def)

lemma execute_calls: "calls (fst (execute h c cmd w)) = calls w @ [cmd]"
  by (cases "subprocess_run h cmd (fs w)") (simp add: execute_def Let_def print_simps split: run_outcome.split)




lemma clean_step_off: "\<not> clean c \<Longrightarrow> clean_step c w = (w, None)"
  by (simp add: clean_step_def)

lemma clean_loop_calls: "calls (fst (clean_loop ds w)) = calls w"
  by (induction ds arbitrary: w) (auto split: sum.split)

lemma clean_step_calls: "calls (fst (clean_step c w)) = calls w"
  by (simp add: clean_step_def clean_loop_calls print_simps del: clean_loop.simps)

lemma run_build_calls:
  assumes "path_exists (fs w) (main_file c)" and "clean_step c w = (w1, None)"
  shows "calls (fst (run_build h c w)) = calls w @ [build_cmd h c (fs w1)]"
proof -
  have "calls w1 = calls w" using clean_step_calls [of c w] assms(2) by simp
  then show ?thesis
    unfolding run_build_reaches [OF assms] execute_calls
    by (simp add: print_command_simps)
qed





section \<open>Facts about the examples\<close>

lemma str_lower_WX: "str_lower ''WX'' = ''wx''"
  by code_simp

lemma example_host_simps:
  "platform (example_host pf outcome) = pf" "executable (example_host pf outcome) = ''python''"
  "subprocess_run (example_host pf outcome) cmd fsys = (outcome, fsys)"
  by (simp_all add: example_host_def)

lemma example_world_simps:
  "fs (example_world fsys) = fsys" "stdout (example_world fsys) = []"
  "calls (example_world fsys) = []"
  by (simp_all add: example_world_def)

lemma example_args_simps:
  "arg_name (example_args e) = None" "arg_main (example_args e) = e"
  "arg_icon (example_args e) = None" "arg_console (example_args e) = False"
  "arg_onefile (example_args e) = False" "arg_clean (example_args e) = False"
  "arg_framework (example_args e) = None"
  by (simp_all add: example_args_def)

lemma example_fs_entry:
  "example_fs pf ''app.py'' content dn bn \<lparr>drv = [], root = [], parts = [''app.py'']\<rparr>
     = Some (File (Some content))"
  by (simp add: example_fs_def Path_names)

lemma example_fs_dist_build:
  "example_fs pf ''app.py'' content dn bn \<lparr>drv = [], root = [], parts = [''dist'']\<rparr> = dn"
  "example_fs pf ''app.py'' content dn bn \<lparr>drv = [], root = [], parts = [''build'']\<rparr> = bn"
  by (simp_all add: example_fs_def Path_names)

lemma example_fs_missing:
  "example_fs pf ''app.py'' content dn bn \<lparr>drv = [], root = [], parts = [''missing.py'']\<rparr> = None"
  by (simp add: example_fs_def Path_names)

lemma read_text_example:
  "read_text (example_fs pf ''app.py'' content dn bn) (Path pf ''app.py'') = Some content"
  by (simp add: read_text_def example_fs_def)

lemma example_dirs:
  "filter (\<lambda>d. is_dir (example_fs pf ''app.py'' content dn bn) (Path pf d)) common_dirs
     = [''assets'', ''fonts'']"
  by (simp add: common_dirs_def is_dir_def example_fs_def Path_names)

lemma empty_dirs: "filter (\<lambda>d. is_dir (\<lambda>p. None) (Path pf d)) common_dirs = []"
  by (simp add: is_dir_def)

lemma example_data_dirs:
  "get_data_dirs pf (example_fs pf ''app.py'' content dn bn) = [''assets'', ''fonts'']"
  by (simp only: get_data_dirs_filter example_dirs)

lemma tokens_pyside_pyqt5:
  "str_in ''PySide6'' ''import PySide6, PyQt5''" "str_in ''PyQt5'' ''import PySide6, PyQt5''"
  by code_simp+

lemma tokens_none:
  "\<forall>t \<in> set (concat (map fst spec_priority)). \<not> str_in t ''print(1)''"
  by code_simp

lemma import_tkinter_tokens:
  "\<forall>t \<in> set [''PySide6'', ''pyside6'', ''PyQt6'', ''PyQt5'', ''customtkinter'', ''ctk'', ''flet''].
     \<not> str_in t ''import tkinter''"
  "str_in ''import tkinter'' ''import tkinter''"
  by code_simp+

lemma flet_tokens:
  "str_in ''import tkinter'' ''import tkinter, flet''"
  "\<not> str_in ''PySide6'' ''import tkinter, flet''"
  "\<not> str_in ''pyside6'' ''import tkinter, flet''"
  "\<not> str_in ''PyQt6'' ''import tkinter, flet''"
  "\<not> str_in ''PyQt5'' ''import tkinter, flet''"
  "\<not> str_in ''customtkinter'' ''import tkinter, flet''"
  "\<not> str_in ''ctk'' ''import tkinter, flet''"
  "str_in ''flet'' ''import tkinter, flet''"
  by code_simp+

lemma example_tkinter_config:
  assumes "arg_main a = ''app.py''" "arg_name a = None" "arg_framework a = None"
  shows "framework (NuitkaBuildConfig (example_host pf out)
            (example_fs pf ''app.py'' ''import tkinter'' dn bn) a) = ''tkinter''"
    and "get_plugins (NuitkaBuildConfig (example_host pf out)
            (example_fs pf ''app.py'' ''import tkinter'' dn bn) a) = [''tk-inter'']"
    and "app_name (NuitkaBuildConfig (example_host pf out)
            (example_fs pf ''app.py'' ''import tkinter'' dn bn) a) = ''app''"
proof -
  let ?f = "example_fs pf ''app.py'' ''import tkinter'' dn bn"
  let ?c = "NuitkaBuildConfig (example_host pf out) ?f a"
  have "detect_framework ?f (Path pf ''app.py'') = ''tkinter''"
    using read_text_example import_tkinter_tokens(2) import_tkinter_tokens(1)
    by (rule detect_tkinter)
  then show fw: "framework ?c = ''tkinter''"
    using assms by (simp add: NuitkaBuildConfig_def Let_def example_host_simps)
  then show "get_plugins ?c = [''tk-inter'']" by (rule get_plugins_tkinter)
  show "app_name ?c = ''app''"
    using assms
    by (simp add: NuitkaBuildConfig_def Let_def example_host_simps detect_app_name_def
        stem_examples)
qed

section \<open>Plugin resolution\<close>

text \<open>
  Claim C4. For every framework identifier that is not a key of the static plugin table
  \<open>FRAMEWORK_PLUGINS\<close>, \<open>get_plugins\<close> returns the empty plugin list. \<open>get_plugins\<close> is a
  lookup with a default, so it has no failing branch: the result is always a list.
\<close>

theorem get_plugins_unknown_framework:
  "framework c \<notin> fst ` set FRAMEWORK_PLUGINS \<Longrightarrow> get_plugins c = []"
  by (simp add: get_plugins_def map_of_eq_None_iff[symmetric])

theorem get_plugins_unknown_framework_witness:
  "get_plugins (NuitkaBuildConfig (example_host ''linux'' (Exited 0))
      (example_fs ''linux'' ''app.py'' ''import tkinter'' None None)
      ((example_args ''app.py'')\<lparr>arg_framework := Some ''WX''\<rparr>)) = []"
  using get_plugins_unknown_framework [of "NuitkaBuildConfig (example_host ''linux'' (Exited 0))
      (example_fs ''linux'' ''app.py'' ''import tkinter'' None None)
      ((example_args ''app.py'')\<lparr>arg_framework := Some ''WX''\<rparr>)"]
  by (simp add: NuitkaBuildConfig_def example_args_def str_lower_WX FRAMEWORK_PLUGINS_def Let_def)

section \<open>Data-directory discovery\<close>

text \<open>
  Claim C5. \<open>get_data_dirs\<close> returns exactly the members of the fixed candidate list
  \<open>common_dirs\<close> that exist as directories: as a list it is the candidate list filtered
  by \<open>is_dir\<close>, so its members are the candidates that are directories, it is a
  subsequence of the candidate list (the fixed order is kept), and it is empty when no
  candidate is a directory. Each candidate is looked up as the one-part relative path of
  its name, that is, relative to the working directory.
\<close>

theorem get_data_dirs_exact:
  "get_data_dirs pf fsys = filter (\<lambda>d. is_dir fsys (Path pf d)) common_dirs
   \<and> set (get_data_dirs pf fsys) = {d \<in> set common_dirs. is_dir fsys (Path pf d)}
   \<and> subseq (get_data_dirs pf fsys) common_dirs
   \<and> ((\<forall>d \<in> set common_dirs. \<not> is_dir fsys (Path pf d)) \<longrightarrow> get_data_dirs pf fsys = [])
   \<and> (\<forall>d \<in> set common_dirs. Path pf d = \<lparr>drv = [], root = [], parts = [d]\<rparr>)"
proof -
  have eq: "get_data_dirs pf fsys = filter (\<lambda>d. is_dir fsys (Path pf d)) common_dirs"
    by (rule get_data_dirs_filter)
  have s: "set (get_data_dirs pf fsys) = {d \<in> set common_dirs. is_dir fsys (Path pf d)}"
    unfolding eq by auto
  have o: "subseq (get_data_dirs pf fsys) common_dirs"
    unfolding eq by simp
  have e: "(\<forall>d \<in> set common_dirs. \<not> is_dir fsys (Path pf d)) \<longrightarrow> get_data_dirs pf fsys = []"
    unfolding eq by (simp add: filter_empty_conv)
  have r: "\<forall>d \<in> set common_dirs. Path pf d = \<lparr>drv = [], root = [], parts = [d]\<rparr>"
    using Path_common_dirs by blast
  show ?thesis using eq s o e r by blast
qed

theorem get_data_dirs_exact_witness:
  "get_data_dirs ''linux'' (\<lambda>p. None) = []
   \<and> get_data_dirs ''win32'' (example_fs ''win32'' ''app.py'' ''import tkinter'' None None)
       = [''assets'', ''fonts'']"
proof -
  have "get_data_dirs ''linux'' (\<lambda>p. None)
      = filter (\<lambda>d. is_dir (\<lambda>p. None) (Path ''linux'' d)) common_dirs"
    using get_data_dirs_exact [of "''linux''" "\<lambda>p. None"] by blast
  moreover have
    "get_data_dirs ''win32'' (example_fs ''win32'' ''app.py'' ''import tkinter'' None None)
      = filter (\<lambda>d. is_dir (example_fs ''win32'' ''app.py'' ''import tkinter'' None None)
                  (Path ''win32'' d)) common_dirs"
    using get_data_dirs_exact
      [of "''win32''" "example_fs ''win32'' ''app.py'' ''import tkinter'' None None"]
    by blast
  ultimately show ?thesis by (simp only: example_dirs empty_dirs)
qed

section \<open>Framework detection\<close>

text \<open>
  Claim C3. When no framework is given on the command line, the configuration's
  framework is what \<open>detect_framework\<close> finds in the entry file. \<open>detect_framework\<close>
  agrees with the search the specification describes: the tokens are tried in the order
  PySide (\<open>PySide6\<close> or \<open>pyside6\<close>), \<open>PyQt6\<close>, \<open>PyQt5\<close>, custom-tkinter
  (\<open>customtkinter\<close> or \<open>ctk\<close>), \<open>flet\<close>, \<open>tkinter\<close>, and the first that occurs in the
  text decides. A file that cannot be read, and a text in which no token occurs, give
  the default framework \<open>pyside6\<close>; a text with both a PySide token and the PyQt5 token
  gives \<open>pyside6\<close>.
\<close>

theorem framework_detection_priority:
  "(arg_framework a = None \<longrightarrow>
      framework (NuitkaBuildConfig h fsys a)
        = detect_framework fsys (Path (platform h) (arg_main a)))
   \<and> detect_framework fsys mf = spec_detect_framework (read_text fsys mf)
   \<and> (read_text fsys mf = None \<longrightarrow> detect_framework fsys mf = spec_default_framework)
   \<and> (read_text fsys mf = Some content
        \<and> (\<forall>t \<in> set (concat (map fst spec_priority)). \<not> str_in t content)
      \<longrightarrow> detect_framework fsys mf = spec_default_framework)
   \<and> (read_text fsys mf = Some content
        \<and> (str_in ''PySide6'' content \<or> str_in ''pyside6'' content)
        \<and> str_in ''PyQt5'' content
      \<longrightarrow> detect_framework fsys mf = ''pyside6'')"
proof -
  have a: "arg_framework a = None \<longrightarrow>
      framework (NuitkaBuildConfig h fsys a)
        = detect_framework fsys (Path (platform h) (arg_main a))"
    by (simp add: NuitkaBuildConfig_def Let_def)
  have b: "detect_framework fsys mf = spec_detect_framework (read_text fsys mf)"
    by (rule detect_refines)
  have c: "read_text fsys mf = None \<longrightarrow> detect_framework fsys mf = spec_default_framework"
    by (simp add: detect_framework_def spec_default_framework_def)
  have d: "read_text fsys mf = Some content
        \<and> (\<forall>t \<in> set (concat (map fst spec_priority)). \<not> str_in t content)
      \<longrightarrow> detect_framework fsys mf = spec_default_framework"
    by (simp add: detect_framework_def spec_default_framework_def spec_priority_def)
  have e: "read_text fsys mf = Some content
        \<and> (str_in ''PySide6'' content \<or> str_in ''pyside6'' content)
        \<and> str_in ''PyQt5'' content
      \<longrightarrow> detect_framework fsys mf = ''pyside6''"
    by (simp add: detect_framework_def)
  show ?thesis using a b c d e by blast
qed

theorem framework_detection_priority_witness:
  "framework (NuitkaBuildConfig (example_host ''linux'' (Exited 0))
      (example_fs ''linux'' ''app.py'' ''import PySide6, PyQt5'' None None)
      (example_args ''app.py'')) = ''pyside6''
   \<and> detect_framework (\<lambda>p. None) (Path ''linux'' ''app.py'') = ''pyside6''
   \<and> detect_framework (example_fs ''linux'' ''app.py'' ''print(1)'' None None)
       (Path ''linux'' ''app.py'') = ''pyside6''"
proof -
  let ?h = "example_host ''linux'' (Exited 0)"
  let ?f = "example_fs ''linux'' ''app.py'' ''import PySide6, PyQt5'' None None"
  let ?g = "example_fs ''linux'' ''app.py'' ''print(1)'' None None"
  let ?p = "Path ''linux'' ''app.py''"
  have pl: "platform ?h = ''linux''" and am: "arg_main (example_args ''app.py'') = ''app.py''"
    and af: "arg_framework (example_args ''app.py'') = None"
    by (simp_all add: example_host_def example_args_def)
  note t1 = framework_detection_priority
    [of "example_args ''app.py''" ?h ?f ?p "''import PySide6, PyQt5''"]
  have "framework (NuitkaBuildConfig ?h ?f (example_args ''app.py'')) = detect_framework ?f ?p"
    using t1 af pl am by simp
  moreover have "detect_framework ?f ?p = ''pyside6''"
    using t1 read_text_example [of "''linux''" "''import PySide6, PyQt5''" None None]
      tokens_pyside_pyqt5 by blast
  moreover have "detect_framework (\<lambda>p. None) ?p = ''pyside6''"
  proof -
    have "read_text (\<lambda>p. None) ?p = None" by (simp add: read_text_def)
    then show ?thesis
      using framework_detection_priority
        [of "example_args ''app.py''" ?h "\<lambda>p. None" ?p "''''"]
      unfolding spec_default_framework_def by blast
  qed
  moreover have "detect_framework ?g ?p = ''pyside6''"
    using framework_detection_priority [of "example_args ''app.py''" ?h ?g ?p "''print(1)''"]
      read_text_example [of "''linux''" "''print(1)''" None None] tokens_none
    unfolding spec_default_framework_def by blast
  ultimately show ?thesis by simp
qed

section \<open>Application name\<close>

text \<open>
  Claim C2, as amended. The entry file of the configuration is \<open>Path(args.main)\<close>.
  When no name is given, or the name given is the empty string (which \<open>args.name or ...\<close>
  treats as absent): if the stem of the entry file differs from \<open>main\<close>, the application
  name is that stem; otherwise it is the name of the current working directory. When a
  name that is not empty is given, it is used verbatim.
\<close>

theorem app_name_resolution:
  "main_file (NuitkaBuildConfig h fsys a) = Path (platform h) (arg_main a)
   \<and> ((arg_name a = None \<or> arg_name a = Some [])
        \<and> path_stem (main_file (NuitkaBuildConfig h fsys a)) \<noteq> ''main''
      \<longrightarrow> app_name (NuitkaBuildConfig h fsys a)
            = path_stem (main_file (NuitkaBuildConfig h fsys a)))
   \<and> ((arg_name a = None \<or> arg_name a = Some [])
        \<and> path_stem (main_file (NuitkaBuildConfig h fsys a)) = ''main''
      \<longrightarrow> app_name (NuitkaBuildConfig h fsys a) = path_name (cwd h))
   \<and> (arg_name a = Some n \<and> n \<noteq> [] \<longrightarrow> app_name (NuitkaBuildConfig h fsys a) = n)"
  by (auto simp add: NuitkaBuildConfig_def Let_def detect_app_name_def)

theorem app_name_resolution_witness:
  "app_name (NuitkaBuildConfig (example_host ''linux'' (Exited 0))
      (example_fs ''linux'' ''app.py'' ''import tkinter'' None None)
      (example_args ''app.py'')) = ''app''
   \<and> app_name (NuitkaBuildConfig (example_host ''linux'' (Exited 0))
      (example_fs ''linux'' ''main.py'' ''import tkinter'' None None)
      (example_args ''main.py'')) = ''project''
   \<and> app_name (NuitkaBuildConfig (example_host ''linux'' (Exited 0))
      (example_fs ''linux'' ''app.py'' ''import tkinter'' None None)
      ((example_args ''app.py'')\<lparr>arg_name := Some ''Tool''\<rparr>)) = ''Tool''"
proof -
  let ?h = "example_host ''linux'' (Exited 0)"
  have h: "platform ?h = ''linux''" "cwd ?h = Path ''linux'' ''/home/dev/project''"
    by (simp_all add: example_host_def)
  have a: "arg_name (example_args e) = None" "arg_main (example_args e) = e" for e
    by (simp_all add: example_args_def)
  have "app_name (NuitkaBuildConfig ?h
      (example_fs ''linux'' ''app.py'' ''import tkinter'' None None)
      (example_args ''app.py'')) = ''app''"
    using app_name_resolution [of ?h "example_fs ''linux'' ''app.py'' ''import tkinter'' None None"
        "example_args ''app.py''" "''x''"]
    by (simp add: h a stem_examples)
  moreover have "app_name (NuitkaBuildConfig ?h
      (example_fs ''linux'' ''main.py'' ''import tkinter'' None None)
      (example_args ''main.py'')) = ''project''"
    using app_name_resolution [of ?h "example_fs ''linux'' ''main.py'' ''import tkinter'' None None"
        "example_args ''main.py''" "''x''"]
    by (simp add: h a stem_examples cwd_name_example)
  moreover have "app_name (NuitkaBuildConfig ?h
      (example_fs ''linux'' ''app.py'' ''import tkinter'' None None)
      ((example_args ''app.py'')\<lparr>arg_name := Some ''Tool''\<rparr>)) = ''Tool''"
    using app_name_resolution [of ?h "example_fs ''linux'' ''app.py'' ''import tkinter'' None None"
        "(example_args ''app.py'')\<lparr>arg_name := Some ''Tool''\<rparr>" "''Tool''"]
    by simp
  ultimately show ?thesis by blast
qed

text \<open>
  The claim as it was stated fails for the name \<open>--name ""\<close>: the empty name is given
  explicitly and is not used; the stem of the entry file is.
\<close>

theorem app_name_empty_name_counterexample:
  "arg_name ((example_args ''app.py'')\<lparr>arg_name := Some []\<rparr>) = Some []
   \<and> app_name (NuitkaBuildConfig (example_host ''linux'' (Exited 0))
        (example_fs ''linux'' ''app.py'' ''import tkinter'' None None)
        ((example_args ''app.py'')\<lparr>arg_name := Some []\<rparr>)) = ''app''
   \<and> app_name (NuitkaBuildConfig (example_host ''linux'' (Exited 0))
        (example_fs ''linux'' ''app.py'' ''import tkinter'' None None)
        ((example_args ''app.py'')\<lparr>arg_name := Some []\<rparr>)) \<noteq> []"
  by (simp add: NuitkaBuildConfig_def Let_def detect_app_name_def example_args_def
      example_host_def stem_examples)

section \<open>A missing entry-point file\<close>

text \<open>
  Claim C6. For every configuration whose entry-point file does not exist when
  \<open>run_build\<close> is called, the run ends with \<open>sys.exit(1)\<close>, nothing is handed to
  \<open>subprocess.run\<close>, and the filesystem is left as it was. The configuration is
  arbitrary, so this holds with the clean flag set too: the existence check comes
  before the clean step. One line is printed, the error message.
\<close>

theorem missing_entry_point_exits_1:
  "\<not> path_exists (fs w) (main_file c) \<Longrightarrow>
   snd (run_build h c w) = SysExit 1
   \<and> exit_code (snd (run_build h c w)) = 1
   \<and> calls (fst (run_build h c w)) = calls w
   \<and> fs (fst (run_build h c w)) = fs w
   \<and> stdout (fst (run_build h c w))
       = stdout w @ [MainFileNotFound (path_str (platform h) (main_file c))]"
  by (simp add: run_build_missing exit_code_def print_simps)

theorem missing_entry_point_exits_1_witness:
  "clean (NuitkaBuildConfig (example_host ''linux'' (Exited 0))
       (example_fs ''linux'' ''app.py'' ''import tkinter'' (Some Directory) (Some Directory))
       ((example_args ''missing.py'')\<lparr>arg_clean := True\<rparr>))
   \<and> snd (main (example_host ''linux'' (Exited 0))
       ((example_args ''missing.py'')\<lparr>arg_clean := True\<rparr>)
       (example_world
         (example_fs ''linux'' ''app.py'' ''import tkinter'' (Some Directory) (Some Directory))))
      = SysExit 1
   \<and> fs (fst (main (example_host ''linux'' (Exited 0))
       ((example_args ''missing.py'')\<lparr>arg_clean := True\<rparr>)
       (example_world
         (example_fs ''linux'' ''app.py'' ''import tkinter'' (Some Directory) (Some Directory)))))
       (Path ''linux'' ''dist'') = Some Directory
   \<and> calls (fst (main (example_host ''linux'' (Exited 0))
       ((example_args ''missing.py'')\<lparr>arg_clean := True\<rparr>)
       (example_world
         (example_fs ''linux'' ''app.py'' ''import tkinter'' (Some Directory) (Some Directory)))))
      = []"
proof -
  let ?h = "example_host ''linux'' (Exited 0)"
  let ?f = "example_fs ''linux'' ''app.py'' ''import tkinter'' (Some Directory) (Some Directory)"
  let ?a = "(example_args ''missing.py'')\<lparr>arg_clean := True\<rparr>"
  let ?c = "NuitkaBuildConfig ?h ?f ?a"
  let ?w = "example_world ?f"
  have mf: "main_file ?c = \<lparr>drv = [], root = [], parts = [''missing.py'']\<rparr>"
    by (simp add: config_simps example_host_simps example_args_simps Path_missing)
  have ne: "\<not> path_exists (fs ?w) (main_file ?c)"
    unfolding mf by (simp add: path_exists_def example_world_simps example_fs_missing)
  have cl: "clean ?c" by (simp add: config_simps)
  have m: "main ?h ?a ?w = run_build ?h ?c ?w"
    by (simp add: main_def example_world_simps)
  show ?thesis
    using missing_entry_point_exits_1 [OF ne, of ?h] cl
    unfolding m by (simp add: example_world_simps Path_names example_fs_dist_build)
qed

section \<open>Exit codes\<close>



section \<open>The clean step\<close>




section \<open>The console flag\<close>

text \<open>
  Claim C7, as amended. A command is the interpreter invocation, then the flags the
  script assembles, then the entry-point path. When the console is not requested: on
  \<open>win32\<close> the assembled flags contain \<open>--windows-disable-console\<close> and not
  \<open>--macos-disable-console\<close>; on \<open>darwin\<close> they contain the macOS flag and not the
  Windows one; on any other platform they contain neither. For every configuration the
  assembled flags never contain both.
\<close>

theorem console_flag_by_platform:
  "build_cmd h c fsys =
     [executable h, ''-m'', ''nuitka''] @ assembled_flags (build_cmd h c fsys)
     @ [path_str (platform h) (main_file c)]
   \<and> (platform h = ''win32'' \<and> \<not> console c \<longrightarrow>
        ''--windows-disable-console'' \<in> set (assembled_flags (build_cmd h c fsys))
        \<and> ''--macos-disable-console'' \<notin> set (assembled_flags (build_cmd h c fsys)))
   \<and> (platform h = ''darwin'' \<and> \<not> console c \<longrightarrow>
        ''--macos-disable-console'' \<in> set (assembled_flags (build_cmd h c fsys))
        \<and> ''--windows-disable-console'' \<notin> set (assembled_flags (build_cmd h c fsys)))
   \<and> (platform h \<noteq> ''win32'' \<and> platform h \<noteq> ''darwin'' \<longrightarrow>
        ''--windows-disable-console'' \<notin> set (assembled_flags (build_cmd h c fsys))
        \<and> ''--macos-disable-console'' \<notin> set (assembled_flags (build_cmd h c fsys)))
   \<and> \<not> (''--windows-disable-console'' \<in> set (assembled_flags (build_cmd h c fsys))
        \<and> ''--macos-disable-console'' \<in> set (assembled_flags (build_cmd h c fsys)))"
proof -
  have s: "build_cmd h c fsys =
     [executable h, ''-m'', ''nuitka''] @ assembled_flags (build_cmd h c fsys)
     @ [path_str (platform h) (main_file c)]"
    by (rule build_cmd_split)
  have ne: "''win32'' \<noteq> ''darwin''" by simp
  show ?thesis
    unfolding windows_flag_member macos_flag_member using s ne by auto
qed

theorem console_flag_by_platform_witness:
  "''--windows-disable-console'' \<in> set (assembled_flags (build_cmd
        (example_host ''win32'' (Exited 0))
        (NuitkaBuildConfig (example_host ''win32'' (Exited 0))
          (example_fs ''win32'' ''app.py'' ''import tkinter'' None None) (example_args ''app.py''))
        (example_fs ''win32'' ''app.py'' ''import tkinter'' None None)))
   \<and> ''--macos-disable-console'' \<notin> set (assembled_flags (build_cmd
        (example_host ''win32'' (Exited 0))
        (NuitkaBuildConfig (example_host ''win32'' (Exited 0))
          (example_fs ''win32'' ''app.py'' ''import tkinter'' None None) (example_args ''app.py''))
        (example_fs ''win32'' ''app.py'' ''import tkinter'' None None)))
   \<and> ''--macos-disable-console'' \<in> set (assembled_flags (build_cmd
        (example_host ''darwin'' (Exited 0))
        (NuitkaBuildConfig (example_host ''darwin'' (Exited 0))
          (example_fs ''darwin'' ''app.py'' ''import tkinter'' None None) (example_args ''app.py''))
        (example_fs ''darwin'' ''app.py'' ''import tkinter'' None None)))
   \<and> ''--windows-disable-console'' \<notin> set (assembled_flags (build_cmd
        (example_host ''darwin'' (Exited 0))
        (NuitkaBuildConfig (example_host ''darwin'' (Exited 0))
          (example_fs ''darwin'' ''app.py'' ''import tkinter'' None None) (example_args ''app.py''))
        (example_fs ''darwin'' ''app.py'' ''import tkinter'' None None)))
   \<and> ''--windows-disable-console'' \<notin> set (assembled_flags (build_cmd
        (example_host ''linux'' (Exited 0))
        (NuitkaBuildConfig (example_host ''linux'' (Exited 0))
          (example_fs ''linux'' ''app.py'' ''import tkinter'' None None) (example_args ''app.py''))
        (example_fs ''linux'' ''app.py'' ''import tkinter'' None None)))
   \<and> ''--macos-disable-console'' \<notin> set (assembled_flags (build_cmd
        (example_host ''linux'' (Exited 0))
        (NuitkaBuildConfig (example_host ''linux'' (Exited 0))
          (example_fs ''linux'' ''app.py'' ''import tkinter'' None None) (example_args ''app.py''))
        (example_fs ''linux'' ''app.py'' ''import tkinter'' None None)))"
proof -
  have nc: "\<not> console (NuitkaBuildConfig (example_host pf (Exited 0))
          (example_fs pf ''app.py'' ''import tkinter'' None None) (example_args ''app.py''))"
    for pf
    by (simp add: config_simps example_args_simps)
  have pl: "platform (example_host pf (Exited 0)) = pf" for pf
    by (simp add: example_host_simps)
  have d: "''win32'' \<noteq> ''darwin''" "''linux'' \<noteq> ''win32''" "''linux'' \<noteq> ''darwin''"
    by simp_all
  note w = console_flag_by_platform [of "example_host ''win32'' (Exited 0)"
      "NuitkaBuildConfig (example_host ''win32'' (Exited 0))
          (example_fs ''win32'' ''app.py'' ''import tkinter'' None None) (example_args ''app.py'')"
      "example_fs ''win32'' ''app.py'' ''import tkinter'' None None"]
  note m = console_flag_by_platform [of "example_host ''darwin'' (Exited 0)"
      "NuitkaBuildConfig (example_host ''darwin'' (Exited 0))
          (example_fs ''darwin'' ''app.py'' ''import tkinter'' None None) (example_args ''app.py'')"
      "example_fs ''darwin'' ''app.py'' ''import tkinter'' None None"]
  note l = console_flag_by_platform [of "example_host ''linux'' (Exited 0)"
      "NuitkaBuildConfig (example_host ''linux'' (Exited 0))
          (example_fs ''linux'' ''app.py'' ''import tkinter'' None None) (example_args ''app.py'')"
      "example_fs ''linux'' ''app.py'' ''import tkinter'' None None"]
  have w': "''--windows-disable-console'' \<in> set (assembled_flags (build_cmd
        (example_host ''win32'' (Exited 0))
        (NuitkaBuildConfig (example_host ''win32'' (Exited 0))
          (example_fs ''win32'' ''app.py'' ''import tkinter'' None None) (example_args ''app.py''))
        (example_fs ''win32'' ''app.py'' ''import tkinter'' None None)))
   \<and> ''--macos-disable-console'' \<notin> set (assembled_flags (build_cmd
        (example_host ''win32'' (Exited 0))
        (NuitkaBuildConfig (example_host ''win32'' (Exited 0))
          (example_fs ''win32'' ''app.py'' ''import tkinter'' None None) (example_args ''app.py''))
        (example_fs ''win32'' ''app.py'' ''import tkinter'' None None)))"
    using w nc [of "''win32''"] by (simp only: pl simp_thms)
  have m': "''--macos-disable-console'' \<in> set (assembled_flags (build_cmd
        (example_host ''darwin'' (Exited 0))
        (NuitkaBuildConfig (example_host ''darwin'' (Exited 0))
          (example_fs ''darwin'' ''app.py'' ''import tkinter'' None None) (example_args ''app.py''))
        (example_fs ''darwin'' ''app.py'' ''import tkinter'' None None)))
   \<and> ''--windows-disable-console'' \<notin> set (assembled_flags (build_cmd
        (example_host ''darwin'' (Exited 0))
        (NuitkaBuildConfig (example_host ''darwin'' (Exited 0))
          (example_fs ''darwin'' ''app.py'' ''import tkinter'' None None) (example_args ''app.py''))
        (example_fs ''darwin'' ''app.py'' ''import tkinter'' None None)))"
    using m nc [of "''darwin''"] by (simp only: pl simp_thms)
  have l': "''--windows-disable-console'' \<notin> set (assembled_flags (build_cmd
        (example_host ''linux'' (Exited 0))
        (NuitkaBuildConfig (example_host ''linux'' (Exited 0))
          (example_fs ''linux'' ''app.py'' ''import tkinter'' None None) (example_args ''app.py''))
        (example_fs ''linux'' ''app.py'' ''import tkinter'' None None)))
   \<and> ''--macos-disable-console'' \<notin> set (assembled_flags (build_cmd
        (example_host ''linux'' (Exited 0))
        (NuitkaBuildConfig (example_host ''linux'' (Exited 0))
          (example_fs ''linux'' ''app.py'' ''import tkinter'' None None) (example_args ''app.py''))
        (example_fs ''linux'' ''app.py'' ''import tkinter'' None None)))"
    using l d by (simp only: pl simp_thms)
  show ?thesis using w' m' l' by (simp only: simp_thms)
qed

text \<open>
  The claim as it was stated, about the whole argument list, fails for an entry file
  whose name is the text of the other platform's flag: the entry-point path is appended
  verbatim as the last argument, so on \<open>win32\<close> the list then contains
  \<open>--macos-disable-console\<close>.
\<close>

theorem console_flag_entry_path_counterexample:
  "platform (example_host ''win32'' (Exited 0)) = ''win32''
   \<and> \<not> console (NuitkaBuildConfig (example_host ''win32'' (Exited 0))
          (example_fs ''win32'' ''--macos-disable-console'' ''import tkinter'' None None)
          (example_args ''--macos-disable-console''))
   \<and> ''--macos-disable-console'' \<in> set (build_cmd
        (example_host ''win32'' (Exited 0))
        (NuitkaBuildConfig (example_host ''win32'' (Exited 0))
          (example_fs ''win32'' ''--macos-disable-console'' ''import tkinter'' None None)
          (example_args ''--macos-disable-console''))
        (example_fs ''win32'' ''--macos-disable-console'' ''import tkinter'' None None))
   \<and> last (build_cmd
        (example_host ''win32'' (Exited 0))
        (NuitkaBuildConfig (example_host ''win32'' (Exited 0))
          (example_fs ''win32'' ''--macos-disable-console'' ''import tkinter'' None None)
          (example_args ''--macos-disable-console''))
        (example_fs ''win32'' ''--macos-disable-console'' ''import tkinter'' None None))
      = ''--macos-disable-console''"
proof -
  let ?h = "example_host ''win32'' (Exited 0)"
  let ?f = "example_fs ''win32'' ''--macos-disable-console'' ''import tkinter'' None None"
  let ?c = "NuitkaBuildConfig ?h ?f (example_args ''--macos-disable-console'')"
  have ps: "path_str (platform ?h) (main_file ?c) = ''--macos-disable-console''"
    by (simp add: config_simps example_host_simps example_args_simps Path_flag_name
        path_str_plain)
  have "build_cmd ?h ?c ?f =
     [executable ?h, ''-m'', ''nuitka''] @ assembled_flags (build_cmd ?h ?c ?f)
     @ [''--macos-disable-console'']"
    using build_cmd_split [of ?h ?c ?f] unfolding ps .
  then have e: "build_cmd ?h ?c ?f =
     ([executable ?h, ''-m'', ''nuitka''] @ assembled_flags (build_cmd ?h ?c ?f))
     @ [''--macos-disable-console'']"
    by (simp only: append_assoc)
  have "''--macos-disable-console'' \<in> set (build_cmd ?h ?c ?f)"
    by (subst e) (simp only: set_append set_simps Un_iff insertI1 simp_thms)
  moreover have "last (build_cmd ?h ?c ?f) = ''--macos-disable-console''"
    by (subst e) (rule last_snoc)
  ultimately show ?thesis
    by (simp add: config_simps example_host_simps example_args_simps)
qed

section \<open>The order of the command\<close>

text \<open>
  Claim C8. For every configuration the command is the interpreter invocation
  \<open>sys.executable -m nuitka\<close> followed by the arguments in the fixed order of the ten
  steps: the standalone flag and the output-directory flag; the single-file flag when
  requested; the console flag of the platform; one \<open>--enable-plugin\<close> flag for each
  plugin, in order; one \<open>--include-data-dir\<close> flag for each data directory found, in
  order, mapping the directory to itself; the icon flag of the platform; the Windows
  product flags; the macOS bundle flags; the two trailing flags; and the entry-point
  path as the last argument. For a configuration built by \<open>NuitkaBuildConfig\<close> the
  output directory is \<open>dist\<close>. This command is what a run that reaches the child
  process hands to \<open>subprocess.run\<close>.
\<close>

theorem command_follows_ten_steps:
  "build_cmd h c fsys =
     [executable h, ''-m'', ''nuitka'']
     @ [''--standalone'', ''--output-dir='' @ path_str (platform h) (output_dir c)]
     @ (if onefile c then [''--onefile''] else [])
     @ (if console c then []
        else if platform h = ''win32'' then [''--windows-disable-console'']
        else if platform h = ''darwin'' then [''--macos-disable-console'']
        else [])
     @ map (\<lambda>plugin. ''--enable-plugin='' @ plugin) (get_plugins c)
     @ map (\<lambda>d. ''--include-data-dir='' @ d @ ''='' @ d) (get_data_dirs (platform h) fsys)
     @ (case icon c of
          None \<Rightarrow> []
        | Some ico \<Rightarrow>
            if ico = [] then []
            else if platform h = ''win32'' then [''--windows-icon-from-ico='' @ ico]
            else if platform h = ''darwin'' then [''--macos-app-icon='' @ ico]
            else [])
     @ (if platform h = ''win32''
        then [''--product-name='' @ app_name c, ''--file-description='' @ app_name c,
              ''--file-version=1.0.0.0'', ''--product-version=1.0.0.0'']
        else [])
     @ (if platform h = ''darwin''
        then [''--macos-create-app-bundle'', ''--macos-app-name='' @ app_name c]
        else [])
     @ [''--assume-yes-for-downloads'', ''--remove-output'']
     @ [path_str (platform h) (main_file c)]
   \<and> path_str (platform h) (output_dir (NuitkaBuildConfig h fsys a)) = ''dist''
   \<and> (path_exists (fs w) (main_file c) \<and> clean_step c w = (w1, None) \<longrightarrow>
        calls (fst (run_build h c w)) = calls w @ [build_cmd h c (fs w1)])"
proof (intro conjI impI)
  show "path_str (platform h) (output_dir (NuitkaBuildConfig h fsys a)) = ''dist''"
    by (simp add: config_simps path_str_names)
  assume "path_exists (fs w) (main_file c) \<and> clean_step c w = (w1, None)"
  then show "calls (fst (run_build h c w)) = calls w @ [build_cmd h c (fs w1)]"
    by (simp add: run_build_calls)
qed (rule build_cmd_eq)

theorem command_follows_ten_steps_witness:
  "calls (fst (main (example_host ''darwin'' (Exited 0))
      ((example_args ''app.py'')\<lparr>arg_icon := Some ''app.icns'', arg_onefile := True\<rparr>)
      (example_world (example_fs ''darwin'' ''app.py'' ''import tkinter'' None None))))
   = [[''python'', ''-m'', ''nuitka'', ''--standalone'', ''--output-dir=dist'', ''--onefile'',
       ''--macos-disable-console'', ''--enable-plugin=tk-inter'',
       ''--include-data-dir=assets=assets'', ''--include-data-dir=fonts=fonts'',
       ''--macos-app-icon=app.icns'', ''--macos-create-app-bundle'', ''--macos-app-name=app'',
       ''--assume-yes-for-downloads'', ''--remove-output'', ''app.py'']]"
proof -
  let ?h = "example_host ''darwin'' (Exited 0)"
  let ?f = "example_fs ''darwin'' ''app.py'' ''import tkinter'' None None"
  let ?a = "(example_args ''app.py'')\<lparr>arg_icon := Some ''app.icns'', arg_onefile := True\<rparr>"
  let ?c = "NuitkaBuildConfig ?h ?f ?a"
  let ?w = "example_world ?f"
  have a: "arg_main ?a = ''app.py''" "arg_name ?a = None" "arg_framework ?a = None"
    by (simp_all add: example_args_simps)
  note t = command_follows_ten_steps [of ?h ?c ?f ?a ?w ?w]
  have ex: "path_exists (fs ?w) (main_file ?c)"
    by (simp add: path_exists_def config_simps example_host_simps example_args_simps
        example_world_simps Path_names example_fs_entry)
  have cs: "clean_step ?c ?w = (?w, None)"
    by (rule clean_step_off) (simp add: config_simps example_args_simps)
  have d: "''darwin'' \<noteq> ''win32''" by simp
  have cmd: "build_cmd ?h ?c ?f =
      [''python'', ''-m'', ''nuitka'', ''--standalone'', ''--output-dir=dist'', ''--onefile'',
       ''--macos-disable-console'', ''--enable-plugin=tk-inter'',
       ''--include-data-dir=assets=assets'', ''--include-data-dir=fonts=fonts'',
       ''--macos-app-icon=app.icns'', ''--macos-create-app-bundle'', ''--macos-app-name=app'',
       ''--assume-yes-for-downloads'', ''--remove-output'', ''app.py'']"
    using t d
    by (simp add: example_tkinter_config [OF a] example_data_dirs config_simps
        example_host_simps example_args_simps Path_names path_str_names)
  have "calls (fst (run_build ?h ?c ?w)) = calls ?w @ [build_cmd ?h ?c (fs ?w)]"
    using t ex cs by simp
  then show ?thesis
    unfolding main_def by (simp add: example_world_simps cmd)
qed

section \<open>End to end\<close>

text \<open>
  Claim C1, as amended. On a \<open>win32\<close> host, for the command line \<open>--main app.py\<close> with
  no other flag and an entry file whose text contains \<open>import tkinter\<close> and none of the
  tokens of higher priority: the framework is \<open>tkinter\<close>, which the plugin table maps to
  the plugin list \<open>[tk-inter]\<close>; the application name is \<open>app\<close>; and the command is
  the interpreter invocation, the standalone flag, \<open>--output-dir=dist\<close>,
  \<open>--windows-disable-console\<close>, \<open>--enable-plugin=tk-inter\<close>, the flags of the data
  directories found, the four product flags carrying the name \<open>app\<close>, the two trailing
  flags, and \<open>app.py\<close> as the last argument.
\<close>

theorem end_to_end_app_py:
  assumes "platform h = ''win32''"
    and "a = \<lparr>arg_name = None, arg_main = ''app.py'', arg_icon = None, arg_console = False,
              arg_onefile = False, arg_clean = False, arg_framework = None\<rparr>"
    and "read_text fsys (Path ''win32'' ''app.py'') = Some content"
    and "str_in ''import tkinter'' content"
    and "\<forall>t \<in> set [''PySide6'', ''pyside6'', ''PyQt6'', ''PyQt5'', ''customtkinter'', ''ctk'',
                    ''flet'']. \<not> str_in t content"
  shows "framework (NuitkaBuildConfig h fsys a) = ''tkinter''
    \<and> get_plugins (NuitkaBuildConfig h fsys a) = [''tk-inter'']
    \<and> app_name (NuitkaBuildConfig h fsys a) = ''app''
    \<and> build_cmd h (NuitkaBuildConfig h fsys a) fsys =
        [executable h, ''-m'', ''nuitka'', ''--standalone'', ''--output-dir=dist'',
         ''--windows-disable-console'', ''--enable-plugin=tk-inter'']
        @ map (\<lambda>d. ''--include-data-dir='' @ d @ ''='' @ d) (get_data_dirs ''win32'' fsys)
        @ [''--product-name=app'', ''--file-description=app'', ''--file-version=1.0.0.0'',
           ''--product-version=1.0.0.0'', ''--assume-yes-for-downloads'', ''--remove-output'',
           ''app.py'']
    \<and> last (build_cmd h (NuitkaBuildConfig h fsys a) fsys) = ''app.py''"
proof -
  let ?c = "NuitkaBuildConfig h fsys a"
  have am: "arg_main a = ''app.py''" "arg_name a = None" "arg_framework a = None"
    "arg_icon a = None" "arg_console a = False" "arg_onefile a = False"
    using assms(2) by simp_all
  have "detect_framework fsys (Path ''win32'' ''app.py'') = ''tkinter''"
    using assms(3,4,5) by (rule detect_tkinter)
  then have fw: "framework ?c = ''tkinter''"
    using am assms(1) by (simp add: NuitkaBuildConfig_def Let_def)
  then have pl: "get_plugins ?c = [''tk-inter'']" by (rule get_plugins_tkinter)
  have an: "app_name ?c = ''app''"
    using am by (simp add: NuitkaBuildConfig_def Let_def detect_app_name_def stem_examples)
  have w: "''win32'' \<noteq> ''darwin''" by simp
  have cmd: "build_cmd h ?c fsys =
        [executable h, ''-m'', ''nuitka'', ''--standalone'', ''--output-dir=dist'',
         ''--windows-disable-console'', ''--enable-plugin=tk-inter'']
        @ map (\<lambda>d. ''--include-data-dir='' @ d @ ''='' @ d) (get_data_dirs ''win32'' fsys)
        @ [''--product-name=app'', ''--file-description=app'', ''--file-version=1.0.0.0'',
           ''--product-version=1.0.0.0'', ''--assume-yes-for-downloads'', ''--remove-output'',
           ''app.py'']"
    unfolding build_cmd_eq
    using w by (simp add: pl an am assms(1) config_simps Path_names path_str_names)
  have l: "last (build_cmd h ?c fsys) = ''app.py''"
    unfolding cmd by simp
  show ?thesis using fw pl an cmd l by (simp only: simp_thms)
qed

theorem end_to_end_app_py_witness:
  "framework (NuitkaBuildConfig (example_host ''win32'' (Exited 0))
      (example_fs ''win32'' ''app.py'' ''import tkinter'' None None) (example_args ''app.py''))
     = ''tkinter''
   \<and> get_plugins (NuitkaBuildConfig (example_host ''win32'' (Exited 0))
      (example_fs ''win32'' ''app.py'' ''import tkinter'' None None) (example_args ''app.py''))
     = [''tk-inter'']
   \<and> app_name (NuitkaBuildConfig (example_host ''win32'' (Exited 0))
      (example_fs ''win32'' ''app.py'' ''import tkinter'' None None) (example_args ''app.py''))
     = ''app''
   \<and> build_cmd (example_host ''win32'' (Exited 0))
      (NuitkaBuildConfig (example_host ''win32'' (Exited 0))
        (example_fs ''win32'' ''app.py'' ''import tkinter'' None None) (example_args ''app.py''))
      (example_fs ''win32'' ''app.py'' ''import tkinter'' None None)
     = [''python'', ''-m'', ''nuitka'', ''--standalone'', ''--output-dir=dist'',
        ''--windows-disable-console'', ''--enable-plugin=tk-inter'',
        ''--include-data-dir=assets=assets'', ''--include-data-dir=fonts=fonts'',
        ''--product-name=app'', ''--file-description=app'', ''--file-version=1.0.0.0'',
        ''--product-version=1.0.0.0'', ''--assume-yes-for-downloads'', ''--remove-output'',
        ''app.py'']"
proof -
  let ?h = "example_host ''win32'' (Exited 0)"
  let ?f = "example_fs ''win32'' ''app.py'' ''import tkinter'' None None"
  have p: "platform ?h = ''win32''" by (simp add: example_host_simps)
  have a: "example_args ''app.py'' =
      \<lparr>arg_name = None, arg_main = ''app.py'', arg_icon = None, arg_console = False,
       arg_onefile = False, arg_clean = False, arg_framework = None\<rparr>"
    by (simp add: example_args_def)
  have r: "read_text ?f (Path ''win32'' ''app.py'') = Some ''import tkinter''"
    by (rule read_text_example)
  show ?thesis
    using end_to_end_app_py [OF p a r import_tkinter_tokens(2) import_tkinter_tokens(1)]
    by (simp add: example_data_dirs example_host_simps)
qed

text \<open>
  The claim as it was stated fails on the plugin list: \<open>FRAMEWORK_PLUGINS\<close> maps
  \<open>tkinter\<close> to \<open>[tk-inter]\<close>, not to the empty list (that is the entry of \<open>flet\<close>).
  And a text that merely contains \<open>import tkinter\<close> may hold a token of higher priority,
  which then decides.
\<close>

theorem end_to_end_plugin_counterexample:
  "framework (NuitkaBuildConfig (example_host ''win32'' (Exited 0))
      (example_fs ''win32'' ''app.py'' ''import tkinter'' None None) (example_args ''app.py''))
     = ''tkinter''
   \<and> get_plugins (NuitkaBuildConfig (example_host ''win32'' (Exited 0))
      (example_fs ''win32'' ''app.py'' ''import tkinter'' None None) (example_args ''app.py''))
     \<noteq> []
   \<and> str_in ''import tkinter'' ''import tkinter, flet''
   \<and> framework (NuitkaBuildConfig (example_host ''win32'' (Exited 0))
      (example_fs ''win32'' ''app.py'' ''import tkinter, flet'' None None)
      (example_args ''app.py''))
     = ''flet''"
proof -
  have a: "arg_main (example_args ''app.py'') = ''app.py''"
    "arg_name (example_args ''app.py'') = None" "arg_framework (example_args ''app.py'') = None"
    by (simp_all add: example_args_simps)
  have "detect_framework (example_fs ''win32'' ''app.py'' ''import tkinter, flet'' None None)
      (Path ''win32'' ''app.py'') = ''flet''"
    by (simp add: detect_framework_def read_text_example flet_tokens)
  then have "framework (NuitkaBuildConfig (example_host ''win32'' (Exited 0))
      (example_fs ''win32'' ''app.py'' ''import tkinter, flet'' None None)
      (example_args ''app.py'')) = ''flet''"
    using a by (simp add: NuitkaBuildConfig_def Let_def example_host_simps)
  then show ?thesis
    using example_tkinter_config [OF a, of "''win32''" "Exited 0" None None] flet_tokens(1)
    by simp
qed

end
